theory Spec2Isabelle
  imports Main "HOL-Library.AList" "HOL-Library.Word"
begin

section \<open>The JavaScript task runner (js-task-runner.ts)\<close>

text \<open>
  A shallow embedding of \<^verbatim>\<open>packages/@n8n/task-runner/src/js-task-runner/js-task-runner.ts\<close>.
  JavaScript strings are modelled as \<^typ>\<open>string\<close>: one \<^typ>\<open>char\<close> per UTF-16 code unit
  below 256. Awaited calls are sequential, so they are plain function calls here.
\<close>

subsection \<open>String built-ins used by the runner\<close>

text \<open>
  \<^verbatim>\<open>String.prototype.trim\<close> strips WhiteSpace and LineTerminator code points from both
  ends. Below 256 these are TAB, LF, VT, FF, CR, SPACE and NBSP.
\<close>

definition isWhiteSpace :: "char \<Rightarrow> bool" where
  "isWhiteSpace c =
     (c \<in> set [CHR 0x09, CHR 0x0A, CHR 0x0B, CHR 0x0C, CHR 0x0D, CHR 0x20, CHR 0xA0])"

definition js_trim :: "string \<Rightarrow> string" where
  "js_trim s = rev (dropWhile isWhiteSpace (rev (dropWhile isWhiteSpace s)))"

text \<open>
  \<^verbatim>\<open>s.split(sep)\<close> for a one-character separator: the pieces between the separators, in
  order; the empty string splits into one empty piece.
\<close>

fun js_split :: "char \<Rightarrow> string \<Rightarrow> string list" where
  "js_split sep [] = [[]]"
| "js_split sep (c # cs) =
     (if c = sep then [] # js_split sep cs
      else (case js_split sep cs of
              [] \<Rightarrow> [[c]]
            | p # ps \<Rightarrow> (c # p) # ps))"

text \<open>\<^verbatim>\<open>parts.join(sep)\<close>, the inverse reading of \<^const>\<open>js_split\<close>.\<close>

fun js_join :: "char \<Rightarrow> string list \<Rightarrow> string" where
  "js_join sep [] = []"
| "js_join sep [p] = p"
| "js_join sep (p # q # ps) = p @ sep # js_join sep (q # ps)"

subsection \<open>Module allow-lists (the constructor)\<close>

text \<open>
  \<^verbatim>\<open>moduleList === '*' ? null : new Set(moduleList.split(',').map((x) => x.trim()))\<close>.
  \<^term>\<open>None\<close> is \<^verbatim>\<open>null\<close>, which the require resolver reads as "every module allowed".
\<close>

definition parseModuleAllowList :: "string \<Rightarrow> string set option" where
  "parseModuleAllowList moduleList =
     (if moduleList = ''*'' then None
      else Some (set (map (\<lambda>x. js_trim x) (js_split (CHR '','') moduleList))))"

record JsRunnerConfig =
  cfg_allowedBuiltInModules :: "string option"
  cfg_allowedExternalModules :: "string option"

record RequireResolverOpts =
  allowedBuiltInModules :: "string set option"
  allowedExternalModules :: "string set option"

text \<open>The argument the constructor hands to \<^verbatim>\<open>createRequireResolver\<close>; \<^verbatim>\<open>x ?? ''\<close> is the
  default for an unset option.\<close>

definition requireResolverOpts :: "JsRunnerConfig \<Rightarrow> RequireResolverOpts" where
  "requireResolverOpts jsRunnerConfig =
     \<lparr> allowedBuiltInModules =
         parseModuleAllowList
           (case cfg_allowedBuiltInModules jsRunnerConfig of None \<Rightarrow> [] | Some s \<Rightarrow> s),
       allowedExternalModules =
         parseModuleAllowList
           (case cfg_allowedExternalModules jsRunnerConfig of None \<Rightarrow> [] | Some s \<Rightarrow> s) \<rparr>"

subsection \<open>JavaScript values\<close>

text \<open>
  The values user code can return or throw, as far as the runner tells them apart.
  \<^item> A finite number is an integer from \<open>- 2^53\<close> to \<open>2^53 - 1\<close>, read from the word by
    \<^const>\<open>sint\<close>: in this range every integer is a JavaScript number and prints as its decimal
    digits. Fractions and larger magnitudes are not modelled; NaN and the two infinities are.
  \<^item> A BigInt carries its integer.
  \<^item> An object is the list of its own enumerable string-keyed properties in enumeration
    order, the keys distinct, without a \<^verbatim>\<open>toJSON\<close> method.
  \<^item> \<^verbatim>\<open>JCyclic props\<close> is an object that is reachable from itself through its enumerable
    properties; \<^verbatim>\<open>props\<close> are its properties that do not lead back to it.
  \<^item> A symbol or a function is known only as such.
\<close>

datatype jsval =
    JUndefined
  | JNull
  | JBool bool
  | JNum "54 word"
  | JNaN
  | JInfinity bool
  | JBigInt int
  | JStr string
  | JSymbol
  | JFunction
  | JArr "jsval list"
  | JObj "(string \<times> jsval) list"
  | JCyclic "(string \<times> jsval) list"

text \<open>Truthiness, as \<^verbatim>\<open>if (x)\<close> and \<^verbatim>\<open>x ? a : b\<close> read a value.\<close>

fun truthy :: "jsval \<Rightarrow> bool" where
  "truthy JUndefined = False"
| "truthy JNull = False"
| "truthy (JBool b) = b"
| "truthy (JNum n) = (n \<noteq> 0)"
| "truthy JNaN = False"
| "truthy (JInfinity negative) = True"
| "truthy (JBigInt n) = (n \<noteq> 0)"
| "truthy (JStr s) = (s \<noteq> [])"
| "truthy JSymbol = True"
| "truthy JFunction = True"
| "truthy (JArr xs) = True"
| "truthy (JObj kvs) = True"
| "truthy (JCyclic kvs) = True"

subsection \<open>JSON.stringify\<close>

text \<open>
  The language's \<^verbatim>\<open>JSON.stringify(value)\<close> with one argument, on the values above.
  \<^item> It throws a \<^verbatim>\<open>TypeError\<close> (here \<^term>\<open>Inl TypeError\<close>) when it meets a BigInt or an
    object that contains itself, at the top or inside an array or a property.
  \<^item> It answers \<^verbatim>\<open>undefined\<close> (here \<^term>\<open>Inr None\<close>) for \<^verbatim>\<open>undefined\<close>, a symbol and a
    function.
  \<^item> Otherwise it answers text: strings are quoted and escaped, NaN and the infinities print
    as \<^verbatim>\<open>null\<close>, an array element without text prints as \<^verbatim>\<open>null\<close>, and a property whose
    value has no text is left out.
\<close>

datatype type_error = TypeError

text \<open>The results of a list of calls made in order: the first one that throws ends them.\<close>

fun callsInOrder :: "('e + 'a) list \<Rightarrow> 'e + 'a list" where
  "callsInOrder [] = Inr []"
| "callsInOrder (call # later) =
     (case call of
        Inl thrown' \<Rightarrow> Inl thrown'
      | Inr answer \<Rightarrow>
          (case callsInOrder later of
             Inl thrown' \<Rightarrow> Inl thrown'
           | Inr answers \<Rightarrow> Inr (answer # answers)))"

definition hexDigit :: "nat \<Rightarrow> char" where
  "hexDigit n = ''0123456789abcdef'' ! n"

definition escapeChar :: "char \<Rightarrow> string" where
  "escapeChar c =
     (if c = CHR 0x08 then [CHR 0x5C, CHR ''b'']
      else if c = CHR 0x09 then [CHR 0x5C, CHR ''t'']
      else if c = CHR 0x0A then [CHR 0x5C, CHR ''n'']
      else if c = CHR 0x0C then [CHR 0x5C, CHR ''f'']
      else if c = CHR 0x0D then [CHR 0x5C, CHR ''r'']
      else if c = CHR 0x22 then [CHR 0x5C, CHR 0x22]
      else if c = CHR 0x5C then [CHR 0x5C, CHR 0x5C]
      else if (of_char c :: nat) < 32
        then [CHR 0x5C, CHR ''u'', CHR ''0'', CHR ''0'',
              hexDigit (of_char c div 16), hexDigit (of_char c mod 16)]
      else [c])"

definition quoteJSONString :: "string \<Rightarrow> string" where
  "quoteJSONString s = CHR 0x22 # concat (map escapeChar s) @ [CHR 0x22]"

fun decimalDigits :: "nat \<Rightarrow> string" where
  "decimalDigits n =
     (if n < 10 then [''0123456789'' ! n]
      else decimalDigits (n div 10) @ [''0123456789'' ! (n mod 10)])"

declare decimalDigits.simps [simp del]

definition numberToString :: "54 word \<Rightarrow> string" where
  "numberToString x =
     (let i = sint x
      in if i < 0 then CHR ''-'' # decimalDigits (nat (- i)) else decimalDigits (nat i))"

fun JSON_stringify :: "jsval \<Rightarrow> type_error + string option" where
  "JSON_stringify JUndefined = Inr None"
| "JSON_stringify JSymbol = Inr None"
| "JSON_stringify JFunction = Inr None"
| "JSON_stringify JNull = Inr (Some ''null'')"
| "JSON_stringify (JBool b) = Inr (Some (if b then ''true'' else ''false''))"
| "JSON_stringify (JNum n) = Inr (Some (numberToString n))"
| "JSON_stringify JNaN = Inr (Some ''null'')"
| "JSON_stringify (JInfinity negative) = Inr (Some ''null'')"
| "JSON_stringify (JBigInt n) = Inl TypeError"
| "JSON_stringify (JStr s) = Inr (Some (quoteJSONString s))"
| "JSON_stringify (JArr xs) =
     (case callsInOrder (map JSON_stringify xs) of
        Inl e \<Rightarrow> Inl e
      | Inr texts \<Rightarrow>
          Inr (Some (''['' @
            js_join (CHR '','')
              (map (\<lambda>t. case t of None \<Rightarrow> ''null'' | Some s \<Rightarrow> s) texts) @ '']'')))"
| "JSON_stringify (JObj kvs) =
     (case callsInOrder (map (\<lambda>(k, v). JSON_stringify v) kvs) of
        Inl e \<Rightarrow> Inl e
      | Inr texts \<Rightarrow>
          Inr (Some (''{'' @
            js_join (CHR '','')
              (concat (map (\<lambda>(k, t). case t of
                                       None \<Rightarrow> []
                                     | Some s \<Rightarrow> [quoteJSONString k @ '':'' @ s])
                         (zip (map fst kvs) texts))) @ ''}'')))"
| "JSON_stringify (JCyclic kvs) = Inl TypeError"

subsection \<open>Thrown values and their normal form\<close>

text \<open>
  What a \<^verbatim>\<open>catch (e)\<close> of the runner can receive: an instance of \<^verbatim>\<open>Error\<close> (with its
  message and, when present, its stack), or any other value.
\<close>

datatype thrown =
    ErrorInstance string "string option"
  | Value jsval

text \<open>
  The errors \<^verbatim>\<open>toExecutionErrorIfNeeded\<close> returns: the \<^verbatim>\<open>Error\<close> passed through
  \<^verbatim>\<open>makeSerializable\<close>, or a \<^verbatim>\<open>new ExecutionError(arg)\<close> holding the object
  it was constructed from.
\<close>

datatype normalized =
    SerializableError string "string option"
  | ExecutionError jsval

text \<open>
  Modelled from the spec: \<^verbatim>\<open>makeSerializable\<close> (errors/serializable-error.ts is not among
  the sources). "A native-error-shaped value (has message/stack) is normalized by copying
  message/stack and marking it serializable."
\<close>

definition makeSerializable :: "string \<Rightarrow> string option \<Rightarrow> normalized" where
  "makeSerializable msg stk = SerializableError msg stk"

text \<open>
  Modelled from the spec: \<^verbatim>\<open>isErrorLike\<close> (errors/error-like.ts is not among the sources).
  "An object that merely looks like an error (has a message-bearing shape without being a
  native error instance)": an object with a string-valued \<^verbatim>\<open>message\<close> property.
\<close>

fun isErrorLike :: "jsval \<Rightarrow> bool" where
  "isErrorLike (JObj kvs) =
     (case map_of kvs ''message'' of Some (JStr m) \<Rightarrow> True | _ \<Rightarrow> False)"
| "isErrorLike (JCyclic kvs) =
     (case map_of kvs ''message'' of Some (JStr m) \<Rightarrow> True | _ \<Rightarrow> False)"
| "isErrorLike v = False"

text \<open>
  Modelled from the spec: the \<^verbatim>\<open>message\<close> of the returned error, read by the run methods as
  \<^verbatim>\<open>error.message\<close> (errors/execution-error.ts is not among the sources). An execution
  error is "carrying that message": the \<^verbatim>\<open>message\<close> property of the object it was
  constructed from. What the class makes of a \<^verbatim>\<open>message\<close> that is \<^verbatim>\<open>undefined\<close> is not
  in the sources; the model leaves it \<^verbatim>\<open>undefined\<close>, and no property below rests on it.
\<close>

fun error_message :: "normalized \<Rightarrow> jsval" where
  "error_message (SerializableError msg stk) = JStr msg"
| "error_message (ExecutionError (JObj kvs)) =
     (case map_of kvs ''message'' of Some m \<Rightarrow> m | None \<Rightarrow> JUndefined)"
| "error_message (ExecutionError (JCyclic kvs)) =
     (case map_of kvs ''message'' of Some m \<Rightarrow> m | None \<Rightarrow> JUndefined)"
| "error_message (ExecutionError v) = JUndefined"

text \<open>
  \<^verbatim>\<open>toExecutionErrorIfNeeded(error)\<close>. \<^term>\<open>Inl TypeError\<close> is the \<^verbatim>\<open>TypeError\<close> that
  \<^verbatim>\<open>JSON.stringify(error)\<close> throws, which nothing in the method catches. The object literal
  \<^verbatim>\<open>{ message: JSON.stringify(error) }\<close> holds \<^verbatim>\<open>undefined\<close> when \<^verbatim>\<open>JSON.stringify\<close>
  answers \<^verbatim>\<open>undefined\<close>.
\<close>

fun toExecutionErrorIfNeeded :: "thrown \<Rightarrow> type_error + normalized" where
  "toExecutionErrorIfNeeded (ErrorInstance msg stk) = Inr (makeSerializable msg stk)"
| "toExecutionErrorIfNeeded (Value v) =
     (if isErrorLike v then Inr (ExecutionError v)
      else (case JSON_stringify v of
              Inl typeError \<Rightarrow> Inl typeError
            | Inr text \<Rightarrow>
                Inr (ExecutionError
                       (JObj [(''message'',
                               case text of None \<Rightarrow> JUndefined | Some s \<Rightarrow> JStr s)]))))"

text \<open>
  What leaves a run method when it throws: the \<^verbatim>\<open>throw error\<close> of its \<^verbatim>\<open>catch\<close> block, or the
  \<^verbatim>\<open>TypeError\<close> that \<^verbatim>\<open>toExecutionErrorIfNeeded\<close> throws inside that block.
\<close>

datatype raised =
    ErrorThrown normalized
  | TypeErrorThrown type_error

subsection \<open>Task data\<close>

datatype IPairedItemData = PairedItem nat

text \<open>\<^verbatim>\<open>INodeExecutionData\<close>: an absent optional property is \<^term>\<open>None\<close>;
  \<^term>\<open>Some (PairedItem i)\<close> is \<^verbatim>\<open>pairedItem: { item: i }\<close>.\<close>

record INodeExecutionData =
  json :: jsval
  binary :: "jsval option"
  pairedItem :: "IPairedItemData option"

record EnvProviderState =
  env :: "(string \<times> string) list"
  isEnvAccessBlocked :: bool
  isProcessAvailable :: bool

record IRunResultData =
  runData :: jsval
  metadata :: "jsval option"

record IRunExecutionData =
  resultData :: IRunResultData

record JSExecSettings =
  code :: string
  nodeMode :: string
  workflowMode :: string
  continueOnFail :: bool
  settings_mode :: string

record AllCodeTaskData =
  workflow :: jsval
  inputData :: jsval
  node :: jsval
  runExecutionData :: IRunExecutionData
  runIndex :: nat
  itemIndex :: nat
  activeNodeName :: string
  connectionInputData :: "INodeExecutionData list"
  siblingParameters :: jsval
  mode :: string
  envProviderState :: "EnvProviderState option"
  executeData :: "jsval option"
  defaultReturnRunIndex :: nat
  selfData :: jsval
  contextNodeName :: string
  additionalData :: jsval

text \<open>\<^verbatim>\<open>new Workflow({ ...workflowParams, nodeTypes: this.nodeTypes })\<close>.\<close>

record Workflow =
  workflowParams :: jsval
  workflow_nodeTypes :: jsval

text \<open>The arguments of \<^verbatim>\<open>new WorkflowDataProxy(...)\<close>, in the constructor's order.\<close>

record WorkflowDataProxy =
  wdp_workflow :: Workflow
  wdp_runExecutionData :: IRunExecutionData
  wdp_runIndex :: nat
  wdp_itemIndex :: nat
  wdp_activeNodeName :: string
  wdp_connectionInputData :: "INodeExecutionData list"
  wdp_siblingParameters :: jsval
  wdp_mode :: string
  wdp_additionalKeys :: jsval
  wdp_executeData :: "jsval option"
  wdp_defaultReturnRunIndex :: nat
  wdp_selfData :: jsval
  wdp_contextNodeName :: string
  wdp_envProviderState :: EnvProviderState

record Task =
  taskId :: string
  settings :: "JSExecSettings option"

record TaskResultData =
  result :: "INodeExecutionData list"
  customData :: "jsval option"

record JsTaskRunner =
  requireResolver :: RequireResolverOpts
  nodeTypes :: jsval

subsection \<open>The sandbox context\<close>

text \<open>The host globals \<^verbatim>\<open>getNativeVariables\<close> hands to the sandbox.\<close>

datatype NativeVariable =
    Buffer | Function | eval
  | setTimeout | setInterval | setImmediate
  | clearTimeout | clearInterval | clearImmediate
  | btoa | atob
  | TextDecoder | TextDecoderStream | TextEncoder | TextEncoderStream
  | FormData

datatype CustomConsole = ConsoleFor string

text \<open>
  What a name of the context is bound to. \<^typ>\<open>'p\<close> is the type of the data proxy's
  properties and \<^typ>\<open>'r\<close> that of the functions of \<^verbatim>\<open>buildRpcCallObject\<close>; both objects
  come from code outside this file.
\<close>

datatype ('p, 'r) binding =
    RequireResolver RequireResolverOpts
  | EmptyObject
  | Console CustomConsole
  | Items "INodeExecutionData list"
  | Item INodeExecutionData
  | Native NativeVariable
  | ProxyProperty 'p
  | RpcCall 'r

type_synonym ('p, 'r) Context = "(string \<times> ('p, 'r) binding) list"

text \<open>
  An object literal with spread properties, \<^verbatim>\<open>{ ...target, ...source }\<close>: the properties of
  \<^verbatim>\<open>source\<close> are set in order on \<^verbatim>\<open>target\<close>; a key already present keeps its place and
  takes the new value.
\<close>

definition spread :: "(string \<times> 'v) list \<Rightarrow> (string \<times> 'v) list \<Rightarrow> (string \<times> 'v) list" where
  "spread target source = fold (\<lambda>(k, v). AList.update k v) source target"

definition getNativeVariables :: "(string \<times> NativeVariable) list" where
  "getNativeVariables =
     [(''Buffer'', Buffer),
      (''Function'', Function),
      (''eval'', eval),
      (''setTimeout'', setTimeout),
      (''setInterval'', setInterval),
      (''setImmediate'', setImmediate),
      (''clearTimeout'', clearTimeout),
      (''clearInterval'', clearInterval),
      (''clearImmediate'', clearImmediate),
      (''btoa'', btoa),
      (''atob'', atob),
      (''TextDecoder'', TextDecoder),
      (''TextDecoderStream'', TextDecoderStream),
      (''TextEncoder'', TextEncoder),
      (''TextEncoderStream'', TextEncoderStream),
      (''FormData'', FormData)]"

text \<open>
  The capability surface as the specification enumerates it: "timer scheduling/cancellation
  primitives, a byte-buffer constructor, text encode/decode constructors and their streaming
  variants, and a multipart form-data constructor".
\<close>

definition spec_capabilitySurface :: "string set" where
  "spec_capabilitySurface =
     {''setTimeout'', ''setInterval'', ''setImmediate'',
      ''clearTimeout'', ''clearInterval'', ''clearImmediate'',
      ''Buffer'',
      ''TextDecoder'', ''TextDecoderStream'', ''TextEncoder'', ''TextEncoderStream'',
      ''FormData''}"

subsection \<open>Collaborators outside this file\<close>

text \<open>
  The functions the runner calls that are defined elsewhere, taken as parameters:
  \<^verbatim>\<open>runInNewContext\<close> of \<^verbatim>\<open>node:vm\<close> (awaited: it returns the value the code evaluates
  to, or throws), the two validators of result-validation.ts (they return the validated
  data or throw), \<^verbatim>\<open>getDataProxy\<close> of the \<^verbatim>\<open>WorkflowDataProxy\<close> class,
  \<^verbatim>\<open>getAdditionalKeys\<close> of n8n-core, and \<^verbatim>\<open>buildRpcCallObject\<close> and \<^verbatim>\<open>requestData\<close> of the
  \<^verbatim>\<open>TaskRunner\<close> base class. Each evaluation gets a context built for it alone, so its
  outcome is a function of the source text and that context; the messages a run sends to the
  broker (log lines, RPC calls) are not part of the model.
\<close>

record ('p, 'r) Host =
  runInNewContext :: "string \<Rightarrow> ('p, 'r) Context \<Rightarrow> thrown + jsval"
  validateRunForAllItemsOutput :: "jsval \<Rightarrow> thrown + INodeExecutionData list"
  validateRunForEachItemOutput :: "jsval \<Rightarrow> nat \<Rightarrow> thrown + INodeExecutionData option"
  getDataProxy :: "WorkflowDataProxy \<Rightarrow> (string \<times> 'p) list"
  getAdditionalKeys :: "jsval \<Rightarrow> string \<Rightarrow> IRunExecutionData \<Rightarrow> jsval"
  buildRpcCallObject :: "string \<Rightarrow> (string \<times> 'r) list"
  requestData :: "string \<Rightarrow> string \<Rightarrow> thrown + AllCodeTaskData"

subsection \<open>createDataProxy\<close>

text \<open>The \<^verbatim>\<open>new WorkflowDataProxy(...)\<close> of \<^verbatim>\<open>createDataProxy\<close>; \<^verbatim>\<open>a ?? b\<close> is \<^verbatim>\<open>b\<close> when
  \<^verbatim>\<open>a\<close> is absent.\<close>

definition newWorkflowDataProxy ::
  "('p, 'r) Host \<Rightarrow> AllCodeTaskData \<Rightarrow> Workflow \<Rightarrow> nat \<Rightarrow> WorkflowDataProxy" where
  "newWorkflowDataProxy h allData workflow' itemIndex' =
     \<lparr> wdp_workflow = workflow',
       wdp_runExecutionData = runExecutionData allData,
       wdp_runIndex = runIndex allData,
       wdp_itemIndex = itemIndex',
       wdp_activeNodeName = activeNodeName allData,
       wdp_connectionInputData = connectionInputData allData,
       wdp_siblingParameters = siblingParameters allData,
       wdp_mode = mode allData,
       wdp_additionalKeys =
         getAdditionalKeys h (additionalData allData) (mode allData) (runExecutionData allData),
       wdp_executeData = executeData allData,
       wdp_defaultReturnRunIndex = defaultReturnRunIndex allData,
       wdp_selfData = selfData allData,
       wdp_contextNodeName = contextNodeName allData,
       wdp_envProviderState =
         (case envProviderState allData of
            Some state \<Rightarrow> state
          | None \<Rightarrow> \<lparr> env = [], isEnvAccessBlocked = False, isProcessAvailable = True \<rparr>) \<rparr>"

definition createDataProxy ::
  "('p, 'r) Host \<Rightarrow> AllCodeTaskData \<Rightarrow> Workflow \<Rightarrow> nat \<Rightarrow> (string \<times> 'p) list" where
  "createDataProxy h allData workflow' itemIndex' =
     getDataProxy h (newWorkflowDataProxy h allData workflow' itemIndex')"

subsection \<open>runForAllItems\<close>

text \<open>The \<^verbatim>\<open>context\<close> object literal of \<^verbatim>\<open>runForAllItems\<close>.\<close>

definition allItemsContext ::
  "('p, 'r) Host \<Rightarrow> JsTaskRunner \<Rightarrow> string \<Rightarrow> AllCodeTaskData \<Rightarrow> Workflow \<Rightarrow> CustomConsole
     \<Rightarrow> ('p, 'r) Context" where
  "allItemsContext h this taskId' allData workflow' customConsole =
     (let dataProxy = createDataProxy h allData workflow' (itemIndex allData);
          inputItems = connectionInputData allData
      in spread
           (spread
             (spread
               [(''require'', RequireResolver (requireResolver this)),
                (''module'', EmptyObject),
                (''console'', Console customConsole),
                (''items'', Items inputItems)]
               (map (\<lambda>(k, v). (k, Native v)) getNativeVariables))
             (map (\<lambda>(k, v). (k, ProxyProperty v)) dataProxy))
           (map (\<lambda>(k, v). (k, RpcCall v)) (buildRpcCallObject h taskId')))"

text \<open>The \<^verbatim>\<open>try\<close> block of \<^verbatim>\<open>runForAllItems\<close>: \<^term>\<open>Inl e\<close> is what it throws.\<close>

definition allItemsTry ::
  "('p, 'r) Host \<Rightarrow> JsTaskRunner \<Rightarrow> string \<Rightarrow> JSExecSettings \<Rightarrow> AllCodeTaskData \<Rightarrow> Workflow
     \<Rightarrow> CustomConsole \<Rightarrow> thrown + INodeExecutionData list" where
  "allItemsTry h this taskId' settings' allData workflow' customConsole =
     (case runInNewContext h
             (''globalThis.global = globalThis; module.exports = async function VmCodeWrapper() {''
                @ code settings' @ [CHR 0x0A] @ ''}()'')
             (allItemsContext h this taskId' allData workflow' customConsole) of
        Inl e \<Rightarrow> Inl e
      | Inr result' \<Rightarrow>
          if result' = JNull then Inr []
          else validateRunForAllItemsOutput h result')"

definition runForAllItems ::
  "('p, 'r) Host \<Rightarrow> JsTaskRunner \<Rightarrow> string \<Rightarrow> JSExecSettings \<Rightarrow> AllCodeTaskData \<Rightarrow> Workflow
     \<Rightarrow> CustomConsole \<Rightarrow> raised + INodeExecutionData list" where
  "runForAllItems h this taskId' settings' allData workflow' customConsole =
     (case allItemsTry h this taskId' settings' allData workflow' customConsole of
        Inr out \<Rightarrow> Inr out
      | Inl e \<Rightarrow>
          (case toExecutionErrorIfNeeded e of
             Inl typeError \<Rightarrow> Inl (TypeErrorThrown typeError)
           | Inr error \<Rightarrow>
               if continueOnFail settings'
               then Inr [\<lparr> json = JObj [(''error'', error_message error)],
                           binary = None, pairedItem = None \<rparr>]
               else Inl (ErrorThrown error)))"

subsection \<open>runForEachItem\<close>

text \<open>The \<^verbatim>\<open>context\<close> object literal of the loop body, for the item at \<^verbatim>\<open>index\<close>.\<close>

definition eachItemContext ::
  "('p, 'r) Host \<Rightarrow> JsTaskRunner \<Rightarrow> string \<Rightarrow> AllCodeTaskData \<Rightarrow> Workflow \<Rightarrow> CustomConsole
     \<Rightarrow> nat \<Rightarrow> ('p, 'r) Context" where
  "eachItemContext h this taskId' allData workflow' customConsole index =
     (let inputItems = connectionInputData allData;
          item = inputItems ! index;
          dataProxy = createDataProxy h allData workflow' index
      in spread
           (spread
             (spread
               [(''require'', RequireResolver (requireResolver this)),
                (''module'', EmptyObject),
                (''console'', Console customConsole),
                (''item'', Item item)]
               (map (\<lambda>(k, v). (k, Native v)) getNativeVariables))
             (map (\<lambda>(k, v). (k, ProxyProperty v)) dataProxy))
           (map (\<lambda>(k, v). (k, RpcCall v)) (buildRpcCallObject h taskId')))"

text \<open>
  The \<^verbatim>\<open>try\<close> block of the loop body: \<^term>\<open>Inl e\<close> is what it throws, \<^term>\<open>Inr rs\<close> the
  records it pushes onto \<^verbatim>\<open>returnData\<close> (none after \<^verbatim>\<open>continue\<close>, none when the validated
  result is falsy).
\<close>

definition eachItemTry ::
  "('p, 'r) Host \<Rightarrow> JsTaskRunner \<Rightarrow> string \<Rightarrow> JSExecSettings \<Rightarrow> AllCodeTaskData \<Rightarrow> Workflow
     \<Rightarrow> CustomConsole \<Rightarrow> nat \<Rightarrow> thrown + INodeExecutionData list" where
  "eachItemTry h this taskId' settings' allData workflow' customConsole index =
     (case runInNewContext h
             (''module.exports = async function VmCodeWrapper() {''
                @ code settings' @ [CHR 0x0A] @ ''}()'')
             (eachItemContext h this taskId' allData workflow' customConsole index) of
        Inl e \<Rightarrow> Inl e
      | Inr result' \<Rightarrow>
          if result' = JNull then Inr []
          else (case validateRunForEachItemOutput h result' index of
                  Inl e \<Rightarrow> Inl e
                | Inr None \<Rightarrow> Inr []
                | Inr (Some validated) \<Rightarrow>
                    Inr [if (case binary validated of None \<Rightarrow> False | Some b \<Rightarrow> truthy b)
                         then \<lparr> json = json validated,
                                binary = binary validated,
                                pairedItem = Some (PairedItem index) \<rparr>
                         else \<lparr> json = json validated,
                                binary = None,
                                pairedItem = Some (PairedItem index) \<rparr>]))"

text \<open>
  One pass of the loop body with its \<^verbatim>\<open>catch\<close>: \<^term>\<open>Inl r\<close> is what leaves
  \<^verbatim>\<open>runForEachItem\<close> from this pass, \<^term>\<open>Inr rs\<close> the records pushed in this pass.
\<close>

definition eachItemStep ::
  "('p, 'r) Host \<Rightarrow> JsTaskRunner \<Rightarrow> string \<Rightarrow> JSExecSettings \<Rightarrow> AllCodeTaskData \<Rightarrow> Workflow
     \<Rightarrow> CustomConsole \<Rightarrow> nat \<Rightarrow> raised + INodeExecutionData list" where
  "eachItemStep h this taskId' settings' allData workflow' customConsole index =
     (case eachItemTry h this taskId' settings' allData workflow' customConsole index of
        Inr pushed \<Rightarrow> Inr pushed
      | Inl e \<Rightarrow>
          (case toExecutionErrorIfNeeded e of
             Inl typeError \<Rightarrow> Inl (TypeErrorThrown typeError)
           | Inr error \<Rightarrow>
               if \<not> continueOnFail settings' then Inl (ErrorThrown error)
               else Inr [\<lparr> json = JObj [(''error'', error_message error)],
                           binary = None,
                           pairedItem = Some (PairedItem index) \<rparr>]))"

text \<open>The \<^verbatim>\<open>for\<close> loop, from \<^verbatim>\<open>index\<close> with the records pushed so far.\<close>

function runForEachItem_loop ::
  "('p, 'r) Host \<Rightarrow> JsTaskRunner \<Rightarrow> string \<Rightarrow> JSExecSettings \<Rightarrow> AllCodeTaskData \<Rightarrow> Workflow
     \<Rightarrow> CustomConsole \<Rightarrow> nat \<Rightarrow> INodeExecutionData list
     \<Rightarrow> raised + INodeExecutionData list" where
  "runForEachItem_loop h this taskId' settings' allData workflow' customConsole index returnData =
     (if index < length (connectionInputData allData) then
        (case eachItemStep h this taskId' settings' allData workflow' customConsole index of
           Inl r \<Rightarrow> Inl r
         | Inr pushed \<Rightarrow>
             runForEachItem_loop h this taskId' settings' allData workflow' customConsole
               (Suc index) (returnData @ pushed))
      else Inr returnData)"
  by pat_completeness auto
termination
  by (relation "measure (\<lambda>(h, this, taskId', settings', allData, workflow', customConsole,
                           index, returnData). length (connectionInputData allData) - index)")
     auto

declare runForEachItem_loop.simps [simp del]

definition runForEachItem ::
  "('p, 'r) Host \<Rightarrow> JsTaskRunner \<Rightarrow> string \<Rightarrow> JSExecSettings \<Rightarrow> AllCodeTaskData \<Rightarrow> Workflow
     \<Rightarrow> CustomConsole \<Rightarrow> raised + INodeExecutionData list" where
  "runForEachItem h this taskId' settings' allData workflow' customConsole =
     runForEachItem_loop h this taskId' settings' allData workflow' customConsole 0 []"

subsection \<open>executeTask\<close>

datatype task_failure =
    RequestRejected thrown
  | AssertionError string
  | Thrown raised

definition executeTask ::
  "('p, 'r) Host \<Rightarrow> JsTaskRunner \<Rightarrow> Task \<Rightarrow> task_failure + TaskResultData" where
  "executeTask h this task =
     (case requestData h (taskId task) ''all'' of
        Inl e \<Rightarrow> Inl (RequestRejected e)
      | Inr allData \<Rightarrow>
          (case settings task of
             None \<Rightarrow> Inl (AssertionError ''JS Code not sent to runner'')
           | Some settings' \<Rightarrow>
               (let workflowParams' = workflow allData;
                    workflow' = \<lparr> workflowParams = workflowParams',
                                  workflow_nodeTypes = nodeTypes this \<rparr>;
                    customConsole = ConsoleFor (taskId task)
                in case (if nodeMode settings' = ''runOnceForAllItems''
                         then runForAllItems h this (taskId task) settings' allData workflow'
                                customConsole
                         else runForEachItem h this (taskId task) settings' allData workflow'
                                customConsole) of
                     Inl r \<Rightarrow> Inl (Thrown r)
                   | Inr result' \<Rightarrow>
                       Inr \<lparr> result = result',
                             customData = metadata (resultData (runExecutionData allData)) \<rparr>)))"

subsection \<open>Example inputs\<close>

text \<open>
  A bundle of three items, and collaborators simple enough to evaluate: the sandbox runs a
  given program on the context, the validators accept an array (all items) or an object with a
  \<^verbatim>\<open>json\<close> property (per item), and the data proxy exposes \<^verbatim>\<open>$itemIndex\<close>.
  \<^term>\<open>boomAtOne\<close> is \<^verbatim>\<open>if ($itemIndex === 1) throw new Error('boom'); return { json: { ok: true } };\<close>,
  \<^term>\<open>throwOops\<close> is \<^verbatim>\<open>throw 'oops';\<close> and \<^term>\<open>throwBigInt\<close> is \<^verbatim>\<open>throw 1n;\<close>.
\<close>

definition sampleItems :: "INodeExecutionData list" where
  "sampleItems =
     [\<lparr> json = JObj [(''n'', JNum 10)], binary = None, pairedItem = None \<rparr>,
      \<lparr> json = JObj [(''n'', JNum 20)], binary = None, pairedItem = None \<rparr>,
      \<lparr> json = JObj [(''n'', JNum 30)], binary = None, pairedItem = None \<rparr>]"

definition sampleData :: AllCodeTaskData where
  "sampleData =
     \<lparr> workflow = JObj [], inputData = JObj [], node = JObj [],
       runExecutionData = \<lparr> resultData = \<lparr> runData = JObj [], metadata = None \<rparr> \<rparr>,
       runIndex = 0, itemIndex = 0, activeNodeName = ''Code'',
       connectionInputData = sampleItems, siblingParameters = JObj [],
       mode = ''manual'', envProviderState = None, executeData = None,
       defaultReturnRunIndex = 0, selfData = JObj [], contextNodeName = ''Code'',
       additionalData = JObj [] \<rparr>"

definition sampleHost :: "((nat, unit) Context \<Rightarrow> thrown + jsval) \<Rightarrow> (nat, unit) Host" where
  "sampleHost program =
     \<lparr> runInNewContext = (\<lambda>source context. program context),
       validateRunForAllItemsOutput =
         (\<lambda>v. case v of
                 JArr xs \<Rightarrow> Inr (map (\<lambda>x. \<lparr> json = x, binary = None, pairedItem = None \<rparr>) xs)
               | _ \<Rightarrow> Inl (ErrorInstance ''Code does not return items properly'' None)),
       validateRunForEachItemOutput =
         (\<lambda>v index. case v of
                 JObj kvs \<Rightarrow>
                   (case map_of kvs ''json'' of
                      Some j \<Rightarrow> Inr (Some \<lparr> json = j, binary = None, pairedItem = None \<rparr>)
                    | None \<Rightarrow> Inl (ErrorInstance ''Unknown top-level item key'' None))
               | _ \<Rightarrow> Inl (ErrorInstance ''Code does not return an object'' None)),
       getDataProxy = (\<lambda>proxy. [(''$itemIndex'', wdp_itemIndex proxy)]),
       getAdditionalKeys = (\<lambda>additional executeMode runData. JObj []),
       buildRpcCallObject = (\<lambda>task. []),
       requestData = (\<lambda>task tag. Inr sampleData) \<rparr>"

definition boomAtOne :: "(nat, unit) Context \<Rightarrow> thrown + jsval" where
  "boomAtOne context =
     (case map_of context ''$itemIndex'' of
        Some (ProxyProperty i) \<Rightarrow>
          if i = 1 then Inl (ErrorInstance ''boom'' None)
          else Inr (JObj [(''json'', JObj [(''ok'', JBool True)])])
      | _ \<Rightarrow> Inl (Value JUndefined))"

definition returnNull :: "(nat, unit) Context \<Rightarrow> thrown + jsval" where
  "returnNull context = Inr JNull"

definition throwOops :: "(nat, unit) Context \<Rightarrow> thrown + jsval" where
  "throwOops context = Inl (Value (JStr ''oops''))"

definition throwBigInt :: "(nat, unit) Context \<Rightarrow> thrown + jsval" where
  "throwBigInt context = Inl (Value (JBigInt 1))"

definition sampleRunner :: JsTaskRunner where
  "sampleRunner =
     \<lparr> requireResolver = \<lparr> allowedBuiltInModules = None, allowedExternalModules = None \<rparr>,
       nodeTypes = JObj [] \<rparr>"

definition sampleWorkflow :: Workflow where
  "sampleWorkflow = \<lparr> workflowParams = JObj [], workflow_nodeTypes = JObj [] \<rparr>"

definition sampleSettings :: "string \<Rightarrow> bool \<Rightarrow> JSExecSettings" where
  "sampleSettings nodeMode' continueOnFail' =
     \<lparr> code = ''return undefined;'', nodeMode = nodeMode', workflowMode = ''manual'',
       continueOnFail = continueOnFail', settings_mode = ''manual'' \<rparr>"

section \<open>Properties\<close>

subsection \<open>Splitting and trimming\<close>

lemma js_split_not_Nil: "js_split sep s \<noteq> []"
  by (induction s) (auto split: list.splits)

lemma js_join_split: "js_join sep (js_split sep s) = s"
proof (induction s)
  case Nil
  show ?case by simp
next
  case (Cons c cs)
  obtain p ps where sp: "js_split sep cs = p # ps"
    using js_split_not_Nil [of sep cs] by (cases "js_split sep cs") auto
  show ?case
  proof (cases "c = sep")
    case True
    with Cons sp show ?thesis by simp
  next
    case False
    with Cons sp show ?thesis by (cases ps) auto
  qed
qed

lemma js_split_no_sep: "p \<in> set (js_split sep s) \<Longrightarrow> sep \<notin> set p"
proof (induction s arbitrary: p)
  case Nil
  then show ?case by simp
next
  case (Cons c cs)
  then show ?case
    by (cases "js_split sep cs") (auto split: if_splits)
qed

lemma rev_dropWhile_rev_decomp:
  "ys = rev (dropWhile P (rev ys)) @ rev (takeWhile P (rev ys))"
proof -
  have "rev (rev ys) = rev (takeWhile P (rev ys) @ dropWhile P (rev ys))"
    by (simp only: takeWhile_dropWhile_id)
  then show ?thesis
    unfolding rev_append rev_rev_ident .
qed

lemma last_dropWhile: "dropWhile P xs \<noteq> [] \<Longrightarrow> last (dropWhile P xs) = last xs"
  by (induction xs) (auto split: if_splits)

lemma list_all_takeWhile: "list_all P (takeWhile P xs)"
  by (induction xs) auto

text \<open>\<^const>\<open>js_trim\<close> removes a whitespace prefix and a whitespace suffix, and nothing else.\<close>

lemma js_trim_decomp:
  "\<exists>a b. x = a @ js_trim x @ b \<and> list_all isWhiteSpace a \<and> list_all isWhiteSpace b"
proof -
  let ?d = "dropWhile isWhiteSpace x"
  let ?a = "takeWhile isWhiteSpace x"
  let ?b = "rev (takeWhile isWhiteSpace (rev ?d))"
  have "?d = js_trim x @ ?b"
    unfolding js_trim_def by (rule rev_dropWhile_rev_decomp)
  then have "?a @ ?d = ?a @ js_trim x @ ?b" by simp
  then have "x = ?a @ js_trim x @ ?b" by simp
  moreover have "list_all isWhiteSpace ?a" by (rule list_all_takeWhile)
  moreover have "list_all isWhiteSpace ?b"
    using list_all_takeWhile [of isWhiteSpace "rev ?d"] by (simp add: list_all_iff)
  ultimately show ?thesis by blast
qed

text \<open>What is left neither starts nor ends with whitespace.\<close>

lemma js_trim_ends:
  assumes "js_trim x \<noteq> []"
  shows "\<not> isWhiteSpace (hd (js_trim x)) \<and> \<not> isWhiteSpace (last (js_trim x))"
proof -
  let ?d = "dropWhile isWhiteSpace x"
  let ?e = "dropWhile isWhiteSpace (rev ?d)"
  have e: "?e \<noteq> []" using assms by (simp add: js_trim_def)
  have d: "?d \<noteq> []"
  proof
    assume a: "?d = []"
    from e show False unfolding a by simp
  qed
  have "\<not> isWhiteSpace (hd ?e)" using e by (rule hd_dropWhile)
  then have la: "\<not> isWhiteSpace (last (js_trim x))"
    using e by (simp add: js_trim_def last_rev)
  have "last ?e = last (rev ?d)" using e by (rule last_dropWhile)
  also have "\<dots> = hd ?d" using d by (simp add: last_rev)
  finally have "hd (js_trim x) = hd ?d"
    using e by (simp add: js_trim_def hd_rev)
  moreover have "\<not> isWhiteSpace (hd ?d)" using d by (rule hd_dropWhile)
  ultimately show ?thesis using la by simp
qed

subsection \<open>The module allow-lists\<close>

text \<open>
  C9. The parsed allow-list is "permit all" (\<^verbatim>\<open>null\<close>) exactly for the string \<^verbatim>\<open>*\<close>. Any other
  string gives the set of its trimmed comma-separated pieces: there is at least one piece, the
  pieces joined by commas are the string, no piece holds a comma, and each entry is a piece without its leading and
  trailing whitespace. The built-in list depends only on the built-in setting and the
  external list only on the external setting.
\<close>

theorem parseModuleAllowList_wildcard_or_set:
  "(parseModuleAllowList s = None \<longleftrightarrow> s = ''*'') \<and>
   (s \<noteq> ''*'' \<longrightarrow>
      (\<exists>parts. parts \<noteq> [] \<and> js_join (CHR '','') parts = s \<and>
         (\<forall>p \<in> set parts. CHR '','' \<notin> set p) \<and>
         parseModuleAllowList s = Some (js_trim ` set parts) \<and>
         (\<forall>p \<in> set parts. \<exists>a b. p = a @ js_trim p @ b \<and>
            list_all isWhiteSpace a \<and> list_all isWhiteSpace b \<and>
            (js_trim p \<noteq> [] \<longrightarrow>
               \<not> isWhiteSpace (hd (js_trim p)) \<and> \<not> isWhiteSpace (last (js_trim p)))))) \<and>
   allowedBuiltInModules (requireResolverOpts (cfg\<lparr>cfg_allowedExternalModules := e\<rparr>)) =
     allowedBuiltInModules (requireResolverOpts cfg) \<and>
   allowedExternalModules (requireResolverOpts (cfg\<lparr>cfg_allowedBuiltInModules := b\<rparr>)) =
     allowedExternalModules (requireResolverOpts cfg) \<and>
   allowedBuiltInModules (requireResolverOpts cfg) =
     parseModuleAllowList (case cfg_allowedBuiltInModules cfg of None \<Rightarrow> [] | Some m \<Rightarrow> m) \<and>
   allowedExternalModules (requireResolverOpts cfg) =
     parseModuleAllowList (case cfg_allowedExternalModules cfg of None \<Rightarrow> [] | Some m \<Rightarrow> m)"
proof -
  have wild: "parseModuleAllowList s = None \<longleftrightarrow> s = ''*''"
    by (simp add: parseModuleAllowList_def)
  have expl: "s \<noteq> ''*'' \<longrightarrow>
      (\<exists>parts. parts \<noteq> [] \<and> js_join (CHR '','') parts = s \<and>
         (\<forall>p \<in> set parts. CHR '','' \<notin> set p) \<and>
         parseModuleAllowList s = Some (js_trim ` set parts) \<and>
         (\<forall>p \<in> set parts. \<exists>a b. p = a @ js_trim p @ b \<and>
            list_all isWhiteSpace a \<and> list_all isWhiteSpace b \<and>
            (js_trim p \<noteq> [] \<longrightarrow>
               \<not> isWhiteSpace (hd (js_trim p)) \<and> \<not> isWhiteSpace (last (js_trim p)))))"
  proof
    assume ne: "s \<noteq> ''*''"
    let ?parts = "js_split (CHR '','') s"
    have "js_join (CHR '','') ?parts = s" by (rule js_join_split)
    moreover have "?parts \<noteq> []" by (rule js_split_not_Nil)
    moreover have "\<forall>p \<in> set ?parts. CHR '','' \<notin> set p"
      using js_split_no_sep by blast
    moreover have "parseModuleAllowList s = Some (js_trim ` set ?parts)"
      using ne by (simp add: parseModuleAllowList_def)
    moreover have "\<forall>p \<in> set ?parts. \<exists>a b. p = a @ js_trim p @ b \<and>
            list_all isWhiteSpace a \<and> list_all isWhiteSpace b \<and>
            (js_trim p \<noteq> [] \<longrightarrow>
               \<not> isWhiteSpace (hd (js_trim p)) \<and> \<not> isWhiteSpace (last (js_trim p)))"
      using js_trim_decomp js_trim_ends by blast
    ultimately show "\<exists>parts. parts \<noteq> [] \<and> js_join (CHR '','') parts = s \<and>
         (\<forall>p \<in> set parts. CHR '','' \<notin> set p) \<and>
         parseModuleAllowList s = Some (js_trim ` set parts) \<and>
         (\<forall>p \<in> set parts. \<exists>a b. p = a @ js_trim p @ b \<and>
            list_all isWhiteSpace a \<and> list_all isWhiteSpace b \<and>
            (js_trim p \<noteq> [] \<longrightarrow>
               \<not> isWhiteSpace (hd (js_trim p)) \<and> \<not> isWhiteSpace (last (js_trim p))))"
      by blast
  qed
  have cfgs:
    "allowedBuiltInModules (requireResolverOpts (cfg\<lparr>cfg_allowedExternalModules := e\<rparr>)) =
       allowedBuiltInModules (requireResolverOpts cfg)"
    "allowedExternalModules (requireResolverOpts (cfg\<lparr>cfg_allowedBuiltInModules := b\<rparr>)) =
       allowedExternalModules (requireResolverOpts cfg)"
    "allowedBuiltInModules (requireResolverOpts cfg) =
       parseModuleAllowList (case cfg_allowedBuiltInModules cfg of None \<Rightarrow> [] | Some m \<Rightarrow> m)"
    "allowedExternalModules (requireResolverOpts cfg) =
       parseModuleAllowList (case cfg_allowedExternalModules cfg of None \<Rightarrow> [] | Some m \<Rightarrow> m)"
    by (simp_all add: requireResolverOpts_def)
  from wild expl cfgs show ?thesis by (intro conjI)
qed

theorem parseModuleAllowList_wildcard_or_set_witness:
  "'' fs ,path'' \<noteq> ''*'' \<and>
   parseModuleAllowList ''*'' = None \<and>
   parseModuleAllowList '' fs ,path'' = Some {''fs'', ''path''} \<and>
   (\<exists>parts. js_join (CHR '','') parts = '' fs ,path'' \<and>
      parseModuleAllowList '' fs ,path'' = Some (js_trim ` set parts))"
proof -
  have ne: "'' fs ,path'' \<noteq> ''*''" by simp
  have "\<exists>parts. js_join (CHR '','') parts = '' fs ,path'' \<and>
      parseModuleAllowList '' fs ,path'' = Some (js_trim ` set parts)"
    using parseModuleAllowList_wildcard_or_set [of "'' fs ,path''"] ne by blast
  moreover have "parseModuleAllowList ''*'' = None"
    using parseModuleAllowList_wildcard_or_set [of "''*''"] by blast
  moreover have "parseModuleAllowList '' fs ,path'' = Some {''fs'', ''path''}"
    by (simp add: parseModuleAllowList_def js_trim_def isWhiteSpace_def)
  ultimately show ?thesis using ne by blast
qed

lemmas sample_defs = sampleItems_def sampleData_def sampleHost_def boomAtOne_def returnNull_def
  throwOops_def throwBigInt_def sampleRunner_def sampleWorkflow_def sampleSettings_def

lemmas run_defs = eachItemTry_def eachItemContext_def createDataProxy_def newWorkflowDataProxy_def
  allItemsTry_def allItemsContext_def eachItemStep_def runForAllItems_def runForEachItem_def
  spread_def getNativeVariables_def

subsection \<open>The sandbox context\<close>

lemma map_of_spread:
  "map_of (spread t s) k = (case map_of (rev s) k of Some v \<Rightarrow> Some v | None \<Rightarrow> map_of t k)"
  unfolding spread_def
proof (induction s arbitrary: t)
  case Nil
  show ?case by simp
next
  case (Cons x s)
  obtain a b where x: "x = (a, b)" by (cases x)
  show ?case
    by (simp add: x Cons AList.update_conv' map_add_def split: option.splits)
qed

lemma getNativeVariables_keys:
  "fst ` set getNativeVariables =
     spec_capabilitySurface \<union> {''Function'', ''eval'', ''btoa'', ''atob''}"
  unfolding getNativeVariables_def spec_capabilitySurface_def by auto


lemma map_of_layers:
  "map_of (spread (spread (spread base (map (\<lambda>(k, v). (k, Native v)) N))
                     (map (\<lambda>(k, v). (k, ProxyProperty v)) P))
             (map (\<lambda>(k, v). (k, RpcCall v)) R)) k =
   (case map_of (rev R) k of
      Some r \<Rightarrow> Some (RpcCall r)
    | None \<Rightarrow>
       (case map_of (rev P) k of
          Some q \<Rightarrow> Some (ProxyProperty q)
        | None \<Rightarrow>
           (case map_of (rev N) k of
              Some n \<Rightarrow> Some (Native n)
            | None \<Rightarrow> map_of base k)))"
proof -
  have tag: "map_of (rev (map (\<lambda>(k, v). (k, f v)) s)) k = map_option f (map_of (rev s) k)"
    for f :: "'x \<Rightarrow> 'y" and s
  proof -
    have "rev (map (\<lambda>(k, v). (k, f v)) s) = map (\<lambda>(k, v). (k, f v)) (rev s)"
      by (simp add: rev_map)
    then show ?thesis by (simp add: map_of_map)
  qed
  show ?thesis
    by (simp add: map_of_spread tag split: option.splits)
qed

lemma natives_of_layers:
  assumes base: "\<And>p. map_of base k \<noteq> Some (Native p)"
  shows "(\<exists>p. map_of (spread (spread (spread base (map (\<lambda>(k, v). (k, Native v)) N))
                     (map (\<lambda>(k, v). (k, ProxyProperty v)) P))
             (map (\<lambda>(k, v). (k, RpcCall v)) R)) k = Some (Native p))
         \<longleftrightarrow> k \<in> fst ` set N - (fst ` set P \<union> fst ` set R)"
proof -
  have n: "map_of (rev s) k = None \<longleftrightarrow> k \<notin> fst ` set s" for s :: "(string \<times> 'z) list"
    by (simp add: map_of_eq_None_iff)
  show ?thesis
    unfolding map_of_layers using base n [of R] n [of P] n [of N]
    by (auto split: option.splits)
qed

lemma allItemsContext_natives:
  "{k. \<exists>p. map_of (allItemsContext h this tid allData wfl con) k = Some (Native p)} =
     fst ` set getNativeVariables -
       (fst ` set (createDataProxy h allData wfl (itemIndex allData)) \<union>
        fst ` set (buildRpcCallObject h tid))"
proof (rule set_eqI)
  fix k
  have base: "map_of [(''require'', RequireResolver (requireResolver this)),
                (''module'', EmptyObject),
                (''console'', Console con),
                (''items'', Items (connectionInputData allData))] k \<noteq> Some (Native p)" for p
    by simp
  have "(\<exists>p. map_of (allItemsContext h this tid allData wfl con) k = Some (Native p)) \<longleftrightarrow>
        k \<in> fst ` set getNativeVariables -
          (fst ` set (createDataProxy h allData wfl (itemIndex allData)) \<union>
           fst ` set (buildRpcCallObject h tid))"
    unfolding allItemsContext_def Let_def by (rule natives_of_layers) (rule base)
  then show "k \<in> {k. \<exists>p. map_of (allItemsContext h this tid allData wfl con) k = Some (Native p)}
      \<longleftrightarrow> k \<in> fst ` set getNativeVariables -
          (fst ` set (createDataProxy h allData wfl (itemIndex allData)) \<union>
           fst ` set (buildRpcCallObject h tid))"
    by (simp only: mem_Collect_eq)
qed

lemma eachItemContext_natives:
  "{k. \<exists>p. map_of (eachItemContext h this tid allData wfl con index) k = Some (Native p)} =
     fst ` set getNativeVariables -
       (fst ` set (createDataProxy h allData wfl index) \<union>
        fst ` set (buildRpcCallObject h tid))"
proof (rule set_eqI)
  fix k
  have base: "map_of [(''require'', RequireResolver (requireResolver this)),
                (''module'', EmptyObject),
                (''console'', Console con),
                (''item'', Item (connectionInputData allData ! index))] k \<noteq> Some (Native p)" for p
    by simp
  have "(\<exists>p. map_of (eachItemContext h this tid allData wfl con index) k = Some (Native p)) \<longleftrightarrow>
        k \<in> fst ` set getNativeVariables -
          (fst ` set (createDataProxy h allData wfl index) \<union>
           fst ` set (buildRpcCallObject h tid))"
    unfolding eachItemContext_def Let_def by (rule natives_of_layers) (rule base)
  then show "k \<in> {k. \<exists>p. map_of (eachItemContext h this tid allData wfl con index) k = Some (Native p)}
      \<longleftrightarrow> k \<in> fst ` set getNativeVariables -
          (fst ` set (createDataProxy h allData wfl index) \<union>
           fst ` set (buildRpcCallObject h tid))"
    by (simp only: mem_Collect_eq)
qed

text \<open>
  C2 (as amended). \<^verbatim>\<open>getNativeVariables\<close> binds sixteen host globals under distinct names:
  the twelve the specification enumerates and also \<^verbatim>\<open>Function\<close>, \<^verbatim>\<open>eval\<close>, \<^verbatim>\<open>btoa\<close> and
  \<^verbatim>\<open>atob\<close>. In the context of either mode the names bound to a host global are exactly these
  sixteen, less the names a data-proxy or RPC property of the same name replaces.
\<close>

theorem native_bindings_of_context:
  "fst ` set getNativeVariables =
     spec_capabilitySurface \<union> {''Function'', ''eval'', ''btoa'', ''atob''} \<and>
   distinct (map fst getNativeVariables) \<and>
   {k. \<exists>p. map_of (allItemsContext h this tid allData wfl con) k = Some (Native p)} =
     (spec_capabilitySurface \<union> {''Function'', ''eval'', ''btoa'', ''atob''}) -
       (fst ` set (createDataProxy h allData wfl (itemIndex allData)) \<union>
        fst ` set (buildRpcCallObject h tid)) \<and>
   {k. \<exists>p. map_of (eachItemContext h this tid allData wfl con index) k = Some (Native p)} =
     (spec_capabilitySurface \<union> {''Function'', ''eval'', ''btoa'', ''atob''}) -
       (fst ` set (createDataProxy h allData wfl index) \<union>
        fst ` set (buildRpcCallObject h tid))"
proof -
  have d: "distinct (map fst getNativeVariables)"
    by (simp add: getNativeVariables_def)
  show ?thesis
    using d getNativeVariables_keys
      allItemsContext_natives [of h this tid allData wfl con]
      eachItemContext_natives [of h this tid allData wfl con index]
    by (simp only: simp_thms)
qed

text \<open>\<^verbatim>\<open>eval\<close> and \<^verbatim>\<open>Function\<close> are bound, and are not in the specification's list.\<close>

theorem getNativeVariables_beyond_spec:
  "map_of getNativeVariables ''eval'' = Some eval \<and>
   map_of getNativeVariables ''Function'' = Some Function \<and>
   ''eval'' \<notin> spec_capabilitySurface \<and> ''Function'' \<notin> spec_capabilitySurface \<and>
   map_of (eachItemContext (sampleHost returnNull) sampleRunner ''t1'' sampleData sampleWorkflow
             (ConsoleFor ''t1'') 0) ''eval'' = Some (Native eval)"
  by (simp add: getNativeVariables_def spec_capabilitySurface_def map_of_spread
      eachItemContext_def createDataProxy_def sampleHost_def)

subsection \<open>The data proxy\<close>

text \<open>
  C1 (as amended). When the bundle has no \<^verbatim>\<open>envProviderState\<close>, \<^verbatim>\<open>createDataProxy\<close> hands the
  data proxy the default state: an empty \<^verbatim>\<open>env\<close>, \<^verbatim>\<open>isEnvAccessBlocked\<close> false and
  \<^verbatim>\<open>isProcessAvailable\<close> true; the proxy is the one built from a bundle that sends this
  default itself.
\<close>

theorem createDataProxy_default_envProviderState:
  "envProviderState allData = None \<Longrightarrow>
     wdp_envProviderState (newWorkflowDataProxy h allData wfl i) =
       \<lparr> env = [], isEnvAccessBlocked = False, isProcessAvailable = True \<rparr> \<and>
     createDataProxy h allData wfl i =
       createDataProxy h
         (allData\<lparr> envProviderState :=
            Some \<lparr> env = [], isEnvAccessBlocked = False, isProcessAvailable = True \<rparr> \<rparr>) wfl i"
  by (simp add: createDataProxy_def newWorkflowDataProxy_def)

theorem createDataProxy_default_envProviderState_witness:
  "envProviderState sampleData = None \<and>
   wdp_envProviderState (newWorkflowDataProxy (sampleHost returnNull) sampleData sampleWorkflow 2) =
     \<lparr> env = [], isEnvAccessBlocked = False, isProcessAvailable = True \<rparr>"
proof -
  have none: "envProviderState sampleData = None" by (simp add: sampleData_def)
  from createDataProxy_default_envProviderState [OF none, of "sampleHost returnNull" sampleWorkflow 2]
  show ?thesis using none by simp
qed

text \<open>The default does not block environment access.\<close>

theorem createDataProxy_default_not_blocked:
  "envProviderState sampleData = None \<and>
   \<not> isEnvAccessBlocked
       (wdp_envProviderState
          (newWorkflowDataProxy (sampleHost returnNull) sampleData sampleWorkflow 0))"
  by (simp add: sampleData_def newWorkflowDataProxy_def)

subsection \<open>Error normalization\<close>

text \<open>
  C3 (the code at \<^verbatim>\<open>throw undefined\<close>). \<^verbatim>\<open>JSON.stringify(undefined)\<close> is \<^verbatim>\<open>undefined\<close>, not
  text, so \<^verbatim>\<open>toExecutionErrorIfNeeded(undefined)\<close> constructs the execution error from
  \<^verbatim>\<open>{ message: undefined }\<close>: the error carries no message string.
\<close>

theorem toExecutionErrorIfNeeded_undefined:
  "JSON_stringify JUndefined = Inr None \<and>
   \<not> isErrorLike JUndefined \<and>
   toExecutionErrorIfNeeded (Value JUndefined) =
     Inr (ExecutionError (JObj [(''message'', JUndefined)]))"
  by simp

text \<open>A value that is not error-like and has JSON text is normalized to an execution error
  with that text as its message.\<close>

lemma toExecutionErrorIfNeeded_message_text:
  "\<not> isErrorLike v \<Longrightarrow> JSON_stringify v = Inr (Some text) \<Longrightarrow>
     toExecutionErrorIfNeeded (Value v) = Inr (ExecutionError (JObj [(''message'', JStr text)])) \<and>
     error_message (ExecutionError (JObj [(''message'', JStr text)])) = JStr text"
  by simp

lemma toExecutionErrorIfNeeded_message_string:
  "toExecutionErrorIfNeeded (Value v) = Inr err \<Longrightarrow> JSON_stringify v \<noteq> Inr None \<Longrightarrow>
     \<exists>text. error_message err = JStr text"
  by (cases "isErrorLike v"; cases v)
     (auto split: option.splits jsval.splits sum.splits if_splits)

text \<open>The method itself throws exactly when \<^verbatim>\<open>JSON.stringify\<close> does: on a value that is not
  error-like and holds a BigInt or a cycle.\<close>

lemma toExecutionErrorIfNeeded_throws:
  "toExecutionErrorIfNeeded e = Inl TypeError \<longleftrightarrow>
     (\<exists>v. e = Value v \<and> \<not> isErrorLike v \<and> JSON_stringify v = Inl TypeError)"
  by (cases e) (auto split: sum.splits)

lemma toExecutionErrorIfNeeded_examples:
  "toExecutionErrorIfNeeded (Value (JStr ''oops'')) =
     Inr (ExecutionError (JObj [(''message'',
            JStr [CHR 0x22, CHR ''o'', CHR ''o'', CHR ''p'', CHR ''s'', CHR 0x22])]))"
  "toExecutionErrorIfNeeded (Value (JNum 42)) =
     Inr (ExecutionError (JObj [(''message'', JStr ''42'')]))"
  "toExecutionErrorIfNeeded (ErrorInstance ''boom'' stk) = Inr (SerializableError ''boom'' stk)"
  "toExecutionErrorIfNeeded (Value JFunction) =
     Inr (ExecutionError (JObj [(''message'', JUndefined)]))"
  "toExecutionErrorIfNeeded (Value (JBigInt 1)) = Inl TypeError"
  "toExecutionErrorIfNeeded (Value (JArr [JNum 1, JBigInt 2])) = Inl TypeError"
  "toExecutionErrorIfNeeded (Value (JCyclic [(''name'', JStr ''loop'')])) = Inl TypeError"
  "toExecutionErrorIfNeeded (Value (JCyclic [(''message'', JStr ''loop'')])) =
     Inr (ExecutionError (JCyclic [(''message'', JStr ''loop'')]))"
  by (simp_all add: quoteJSONString_def escapeChar_def numberToString_def decimalDigits.simps
      makeSerializable_def)

subsection \<open>The per-item loop\<close>

lemma eachItemTry_pushed:
  "eachItemTry h this tid st allData wfl con i = Inr rs \<Longrightarrow>
     rs = [] \<or> (\<exists>r. rs = [r] \<and> pairedItem r = Some (PairedItem i))"
  unfolding eachItemTry_def
  by (auto split: sum.splits if_splits option.splits)

lemma eachItemStep_pushed:
  "eachItemStep h this tid st allData wfl con i = Inr rs \<Longrightarrow>
     rs = [] \<or> (\<exists>r. rs = [r] \<and> pairedItem r = Some (PairedItem i))"
  unfolding eachItemStep_def Let_def
  by (auto split: sum.splits if_splits dest: eachItemTry_pushed)

lemma loop_unfold_done:
  "\<not> index < length (connectionInputData allData) \<Longrightarrow>
     runForEachItem_loop h this tid st allData wfl con index acc = Inr acc"
  by (subst runForEachItem_loop.simps) simp

lemma loop_unfold_throw:
  "index < length (connectionInputData allData) \<Longrightarrow>
   eachItemStep h this tid st allData wfl con index = Inl err \<Longrightarrow>
     runForEachItem_loop h this tid st allData wfl con index acc = Inl err"
  by (subst runForEachItem_loop.simps) simp

lemma loop_unfold_push:
  "index < length (connectionInputData allData) \<Longrightarrow>
   eachItemStep h this tid st allData wfl con index = Inr pushed \<Longrightarrow>
     runForEachItem_loop h this tid st allData wfl con index acc =
     runForEachItem_loop h this tid st allData wfl con (Suc index) (acc @ pushed)"
  by (subst runForEachItem_loop.simps) simp

lemma loop_records:
  "runForEachItem_loop h this tid st allData wfl con index acc = Inr out \<Longrightarrow>
   \<exists>rs idxs. out = acc @ rs \<and> sorted_wrt (<) idxs \<and>
     (\<forall>i \<in> set idxs. index \<le> i \<and> i < length (connectionInputData allData)) \<and>
     list_all2 (\<lambda>r i. eachItemStep h this tid st allData wfl con i = Inr [r] \<and>
                       pairedItem r = Some (PairedItem i)) rs idxs"
proof (induction h this tid st allData wfl con index acc rule: runForEachItem_loop.induct)
  case (1 h this tid st allData wfl con index acc)
  let ?n = "length (connectionInputData allData)"
  let ?step = "eachItemStep h this tid st allData wfl con"
  let ?R = "\<lambda>r i. ?step i = Inr [r] \<and> pairedItem r = Some (PairedItem i)"
  show ?case
  proof (cases "index < ?n")
    case False
    then have "out = acc" using "1.prems" by (simp add: loop_unfold_done)
    then have "out = acc @ [] \<and> sorted_wrt (<) ([]::nat list) \<and>
        (\<forall>i \<in> set ([]::nat list). index \<le> i \<and> i < ?n) \<and> list_all2 ?R [] []"
      by simp
    then show ?thesis by blast
  next
    case True
    show ?thesis
    proof (cases "?step index")
      case (Inl err)
      then show ?thesis using "1.prems" True by (simp add: loop_unfold_throw)
    next
      case (Inr pushed)
      then have next_eq:
        "runForEachItem_loop h this tid st allData wfl con (Suc index) (acc @ pushed) = Inr out"
        using "1.prems" True by (simp add: loop_unfold_push)
      from "1.IH" [OF True Inr next_eq]
      obtain rs idxs where rest: "out = (acc @ pushed) @ rs" "sorted_wrt (<) idxs"
        "\<forall>i \<in> set idxs. Suc index \<le> i \<and> i < ?n" "list_all2 ?R rs idxs"
        by blast
      from eachItemStep_pushed [OF Inr]
      consider "pushed = []" | r where "pushed = [r]" "pairedItem r = Some (PairedItem index)"
        by blast
      then show ?thesis
      proof cases
        case 1
        have "out = acc @ rs" using rest(1) 1 by simp
        moreover have "\<forall>i \<in> set idxs. index \<le> i \<and> i < ?n" using rest(3) by auto
        ultimately show ?thesis using rest(2,4) by blast
      next
        case 2
        have a: "out = acc @ (r # rs)" using rest(1) 2 by simp
        have b: "sorted_wrt (<) (index # idxs)" using rest(2,3) by auto
        have c: "\<forall>i \<in> set (index # idxs). index \<le> i \<and> i < ?n" using rest(3) True by auto
        have d: "list_all2 ?R (r # rs) (index # idxs)" using rest(4) 2 Inr by simp
        from a b c d show ?thesis by blast
      qed
    qed
  qed
qed


lemma loop_all_null:
  "(\<forall>i. index \<le> i \<and> i < length (connectionInputData allData) \<longrightarrow>
      eachItemTry h this tid st allData wfl con i = Inr []) \<Longrightarrow>
   runForEachItem_loop h this tid st allData wfl con index acc = Inr acc"
proof (induction h this tid st allData wfl con index acc rule: runForEachItem_loop.induct)
  case (1 h this tid st allData wfl con index acc)
  show ?case
  proof (cases "index < length (connectionInputData allData)")
    case False
    then show ?thesis by (simp add: loop_unfold_done)
  next
    case True
    then have "eachItemTry h this tid st allData wfl con index = Inr []"
      using "1.prems" by simp
    then have step: "eachItemStep h this tid st allData wfl con index = Inr []"
      by (simp add: eachItemStep_def)
    have "runForEachItem_loop h this tid st allData wfl con (Suc index) (acc @ []) = Inr (acc @ [])"
      using "1.prems" by (intro "1.IH" [OF True step]) simp
    then show ?thesis using True step by (simp add: loop_unfold_push)
  qed
qed



text \<open>
  C5. Every record \<^verbatim>\<open>runForEachItem\<close> returns was pushed by the loop pass of one input index,
  as a validated result or as a continue-on-failure error record, and carries that index as
  \<^verbatim>\<open>pairedItem.item\<close>; the indices are below the number of input items and strictly increase
  along the output.
\<close>

theorem runForEachItem_pairedItem_increasing:
  assumes "runForEachItem h this tid st allData wfl con = Inr out"
  shows "\<exists>idxs. map pairedItem out = map (\<lambda>i. Some (PairedItem i)) idxs \<and>
           sorted_wrt (<) idxs \<and>
           (\<forall>i \<in> set idxs. i < length (connectionInputData allData)) \<and>
           list_all2 (\<lambda>r i. eachItemStep h this tid st allData wfl con i = Inr [r]) out idxs"
proof -
  let ?R = "\<lambda>r i. eachItemStep h this tid st allData wfl con i = Inr [r] \<and>
                   pairedItem r = Some (PairedItem i)"
  from assms have "runForEachItem_loop h this tid st allData wfl con 0 [] = Inr out"
    by (simp add: runForEachItem_def)
  from loop_records [OF this]
  obtain idxs where idxs: "sorted_wrt (<) idxs"
    "\<forall>i \<in> set idxs. i < length (connectionInputData allData)"
    "list_all2 ?R out idxs"
    by auto
  have "map pairedItem out = map (\<lambda>i. Some (PairedItem i)) idxs"
    using idxs(3) by (induction out idxs rule: list_all2_induct) auto
  moreover have "list_all2 (\<lambda>r i. eachItemStep h this tid st allData wfl con i = Inr [r]) out idxs"
    using idxs(3) by (rule list_all2_mono) simp
  ultimately show ?thesis using idxs(1,2) by blast
qed

theorem runForEachItem_pairedItem_increasing_witness:
  "runForEachItem (sampleHost boomAtOne) sampleRunner ''t1''
     (sampleSettings ''runOnceForEachItem'' True) sampleData sampleWorkflow (ConsoleFor ''t1'') =
     Inr [\<lparr> json = JObj [(''ok'', JBool True)], binary = None,
             pairedItem = Some (PairedItem 0) \<rparr>,
          \<lparr> json = JObj [(''error'', JStr ''boom'')], binary = None,
             pairedItem = Some (PairedItem 1) \<rparr>,
          \<lparr> json = JObj [(''ok'', JBool True)], binary = None,
             pairedItem = Some (PairedItem 2) \<rparr>] \<and>
   (\<exists>idxs. [Some (PairedItem 0), Some (PairedItem 1), Some (PairedItem 2)] =
              map (\<lambda>i. Some (PairedItem i)) idxs \<and>
           sorted_wrt (<) idxs)"
proof -
  let ?out = "[\<lparr> json = JObj [(''ok'', JBool True)], binary = None,
             pairedItem = Some (PairedItem 0) \<rparr>,
          \<lparr> json = JObj [(''error'', JStr ''boom'')], binary = None,
             pairedItem = Some (PairedItem 1) \<rparr>,
          \<lparr> json = JObj [(''ok'', JBool True)], binary = None,
             pairedItem = Some (PairedItem 2) \<rparr>]"
  have run: "runForEachItem (sampleHost boomAtOne) sampleRunner ''t1''
     (sampleSettings ''runOnceForEachItem'' True) sampleData sampleWorkflow (ConsoleFor ''t1'') =
     Inr ?out"
    by (simp add: run_defs sample_defs runForEachItem_loop.simps makeSerializable_def)
  from runForEachItem_pairedItem_increasing [OF run]
  obtain idxs where "map pairedItem ?out = map (\<lambda>i. Some (PairedItem i)) idxs"
    "sorted_wrt (<) idxs"
    by blast
  then have "\<exists>idxs. [Some (PairedItem 0), Some (PairedItem 1), Some (PairedItem 2)] =
              map (\<lambda>i. Some (PairedItem i)) idxs \<and> sorted_wrt (<) idxs"
    by (intro exI [of _ idxs]) simp
  with run show ?thesis by (rule conjI)
qed

text \<open>
  C8. In per-item mode, an item whose evaluation result is \<^verbatim>\<open>null\<close> pushes no record and the
  loop goes on with the next index and the same records; when every item evaluates to
  \<^verbatim>\<open>null\<close>, \<^verbatim>\<open>runForEachItem\<close> returns the empty list.
\<close>

theorem runForEachItem_null_skipped:
  "(index < length (connectionInputData allData) \<and>
    runInNewContext h
      (''module.exports = async function VmCodeWrapper() {'' @ code st @ [CHR 0x0A] @ ''}()'')
      (eachItemContext h this tid allData wfl con index) = Inr JNull \<longrightarrow>
      eachItemStep h this tid st allData wfl con index = Inr [] \<and>
      runForEachItem_loop h this tid st allData wfl con index returnData =
        runForEachItem_loop h this tid st allData wfl con (Suc index) returnData) \<and>
   ((\<forall>i < length (connectionInputData allData).
      runInNewContext h
        (''module.exports = async function VmCodeWrapper() {'' @ code st @ [CHR 0x0A] @ ''}()'')
        (eachItemContext h this tid allData wfl con i) = Inr JNull) \<longrightarrow>
      runForEachItem h this tid st allData wfl con = Inr [])"
proof (intro conjI impI)
  assume a: "index < length (connectionInputData allData) \<and>
    runInNewContext h
      (''module.exports = async function VmCodeWrapper() {'' @ code st @ [CHR 0x0A] @ ''}()'')
      (eachItemContext h this tid allData wfl con index) = Inr JNull"
  then show step: "eachItemStep h this tid st allData wfl con index = Inr []"
    by (simp add: eachItemStep_def eachItemTry_def)
  from a step show "runForEachItem_loop h this tid st allData wfl con index returnData =
        runForEachItem_loop h this tid st allData wfl con (Suc index) returnData"
    by (simp add: loop_unfold_push)
next
  assume "\<forall>i < length (connectionInputData allData).
      runInNewContext h
        (''module.exports = async function VmCodeWrapper() {'' @ code st @ [CHR 0x0A] @ ''}()'')
        (eachItemContext h this tid allData wfl con i) = Inr JNull"
  then have "\<forall>i. 0 \<le> i \<and> i < length (connectionInputData allData) \<longrightarrow>
      eachItemTry h this tid st allData wfl con i = Inr []"
    by (simp add: eachItemTry_def)
  then show "runForEachItem h this tid st allData wfl con = Inr []"
    unfolding runForEachItem_def by (rule loop_all_null)
qed

theorem runForEachItem_null_skipped_witness:
  "length (connectionInputData sampleData) = 3 \<and>
   (\<forall>i. runInNewContext (sampleHost returnNull)
      (''module.exports = async function VmCodeWrapper() {''
         @ code (sampleSettings ''runOnceForEachItem'' False) @ [CHR 0x0A] @ ''}()'')
      (eachItemContext (sampleHost returnNull) sampleRunner ''t1'' sampleData sampleWorkflow
         (ConsoleFor ''t1'') i) = Inr JNull) \<and>
   eachItemStep (sampleHost returnNull) sampleRunner ''t1''
     (sampleSettings ''runOnceForEachItem'' False) sampleData sampleWorkflow (ConsoleFor ''t1'') 1
     = Inr [] \<and>
   runForEachItem (sampleHost returnNull) sampleRunner ''t1''
     (sampleSettings ''runOnceForEachItem'' False) sampleData sampleWorkflow (ConsoleFor ''t1'')
     = Inr []"
proof -
  let ?st = "sampleSettings ''runOnceForEachItem'' False"
  have len: "length (connectionInputData sampleData) = 3"
    by (simp add: sampleData_def sampleItems_def)
  have null: "runInNewContext (sampleHost returnNull)
      (''module.exports = async function VmCodeWrapper() {'' @ code ?st @ [CHR 0x0A] @ ''}()'')
      (eachItemContext (sampleHost returnNull) sampleRunner ''t1'' sampleData sampleWorkflow
         (ConsoleFor ''t1'') i) = Inr JNull" for i
    by (simp add: sampleHost_def returnNull_def)
  have one: "(1::nat) < length (connectionInputData sampleData)" using len by simp
  note skip = runForEachItem_null_skipped [of 1 sampleData "sampleHost returnNull" ?st sampleRunner
      "''t1''" sampleWorkflow "ConsoleFor ''t1''" "[]"]
  have "eachItemStep (sampleHost returnNull) sampleRunner ''t1'' ?st sampleData sampleWorkflow
      (ConsoleFor ''t1'') 1 = Inr []"
    using skip one null by blast
  moreover have "runForEachItem (sampleHost returnNull) sampleRunner ''t1'' ?st sampleData
      sampleWorkflow (ConsoleFor ''t1'') = Inr []"
    using skip null by blast
  ultimately show ?thesis using len null by blast
qed

subsection \<open>The all-items run\<close>

text \<open>What \<^verbatim>\<open>runForAllItems\<close> does when evaluating the user code throws \<^verbatim>\<open>e\<close>: if \<^verbatim>\<open>e\<close> can be
  normalized, the single record \<^verbatim>\<open>{ json: { error: message } }\<close> under \<^verbatim>\<open>continueOnFail\<close> and
  the normalized error thrown otherwise; if normalizing \<^verbatim>\<open>e\<close> throws, that \<^verbatim>\<open>TypeError\<close>
  leaves the method, whatever \<^verbatim>\<open>continueOnFail\<close> is.\<close>

lemma runForAllItems_catch:
  assumes "runInNewContext h
             (''globalThis.global = globalThis; module.exports = async function VmCodeWrapper() {''
                @ code st @ [CHR 0x0A] @ ''}()'')
             (allItemsContext h this tid allData wfl con) = Inl e"
  shows "runForAllItems h this tid st allData wfl con =
           (case toExecutionErrorIfNeeded e of
              Inl typeError \<Rightarrow> Inl (TypeErrorThrown typeError)
            | Inr error \<Rightarrow>
                if continueOnFail st
                then Inr [\<lparr> json = JObj [(''error'', error_message error)],
                            binary = None, pairedItem = None \<rparr>]
                else Inl (ErrorThrown error))"
  using assms by (simp add: runForAllItems_def allItemsTry_def)

lemma runForAllItems_catch_examples:
  "runForAllItems (sampleHost throwOops) sampleRunner ''t1''
     (sampleSettings ''runOnceForAllItems'' True) sampleData sampleWorkflow (ConsoleFor ''t1'') =
     Inr [\<lparr> json = JObj [(''error'',
                JStr [CHR 0x22, CHR ''o'', CHR ''o'', CHR ''p'', CHR ''s'', CHR 0x22])],
             binary = None, pairedItem = None \<rparr>]"
  "runForAllItems (sampleHost throwOops) sampleRunner ''t1''
     (sampleSettings ''runOnceForAllItems'' False) sampleData sampleWorkflow (ConsoleFor ''t1'') =
     Inl (ErrorThrown (ExecutionError (JObj [(''message'',
            JStr [CHR 0x22, CHR ''o'', CHR ''o'', CHR ''p'', CHR ''s'', CHR 0x22])])))"
  by (simp_all add: runForAllItems_def allItemsTry_def sampleHost_def throwOops_def
      sampleSettings_def quoteJSONString_def escapeChar_def)

text \<open>
  C6 (the code at \<^verbatim>\<open>throw 1n\<close> with \<^verbatim>\<open>continueOnFail\<close> set). The \<^verbatim>\<open>catch\<close> block of
  \<^verbatim>\<open>runForAllItems\<close> calls \<^verbatim>\<open>toExecutionErrorIfNeeded\<close>, whose \<^verbatim>\<open>JSON.stringify\<close> throws a
  \<^verbatim>\<open>TypeError\<close> on the BigInt; the \<^verbatim>\<open>TypeError\<close> leaves the method and no record is returned.
\<close>

theorem runForAllItems_continueOnFail_bigint:
  "continueOnFail (sampleSettings ''runOnceForAllItems'' True) \<and>
   runInNewContext (sampleHost throwBigInt)
     (''globalThis.global = globalThis; module.exports = async function VmCodeWrapper() {''
        @ code (sampleSettings ''runOnceForAllItems'' True) @ [CHR 0x0A] @ ''}()'')
     (allItemsContext (sampleHost throwBigInt) sampleRunner ''t1'' sampleData sampleWorkflow
        (ConsoleFor ''t1'')) = Inl (Value (JBigInt 1)) \<and>
   toExecutionErrorIfNeeded (Value (JBigInt 1)) = Inl TypeError \<and>
   runForAllItems (sampleHost throwBigInt) sampleRunner ''t1''
     (sampleSettings ''runOnceForAllItems'' True) sampleData sampleWorkflow (ConsoleFor ''t1'') =
     Inl (TypeErrorThrown TypeError)"
  by (simp add: runForAllItems_def allItemsTry_def sampleHost_def throwBigInt_def
      sampleSettings_def)

text \<open>
  C7. In all-items mode, when the user code evaluates to \<^verbatim>\<open>null\<close>, \<^verbatim>\<open>runForAllItems\<close> returns
  the empty list, whatever the input items are.
\<close>

theorem runForAllItems_null:
  assumes "runInNewContext h
             (''globalThis.global = globalThis; module.exports = async function VmCodeWrapper() {''
                @ code st @ [CHR 0x0A] @ ''}()'')
             (allItemsContext h this tid allData wfl con) = Inr JNull"
  shows "runForAllItems h this tid st allData wfl con = Inr []"
  using assms by (simp add: runForAllItems_def allItemsTry_def)

theorem runForAllItems_null_witness:
  "runInNewContext (sampleHost returnNull)
     (''globalThis.global = globalThis; module.exports = async function VmCodeWrapper() {''
        @ code (sampleSettings ''runOnceForAllItems'' False) @ [CHR 0x0A] @ ''}()'')
     (allItemsContext (sampleHost returnNull) sampleRunner ''t1'' sampleData sampleWorkflow
        (ConsoleFor ''t1'')) = Inr JNull \<and>
   length (connectionInputData sampleData) = 3 \<and>
   runForAllItems (sampleHost returnNull) sampleRunner ''t1''
     (sampleSettings ''runOnceForAllItems'' False) sampleData sampleWorkflow (ConsoleFor ''t1'') =
     Inr []"
proof -
  have null: "runInNewContext (sampleHost returnNull)
     (''globalThis.global = globalThis; module.exports = async function VmCodeWrapper() {''
        @ code (sampleSettings ''runOnceForAllItems'' False) @ [CHR 0x0A] @ ''}()'')
     (allItemsContext (sampleHost returnNull) sampleRunner ''t1'' sampleData sampleWorkflow
        (ConsoleFor ''t1'')) = Inr JNull"
    by (simp add: sampleHost_def returnNull_def)
  have "length (connectionInputData sampleData) = 3"
    by (simp add: sampleData_def sampleItems_def)
  with null runForAllItems_null [OF null] show ?thesis by simp
qed

subsection \<open>Dispatch on the mode\<close>

text \<open>
  C10. Once the bundle has arrived and the settings are present, \<^verbatim>\<open>executeTask\<close> returns what
  \<^verbatim>\<open>runForAllItems\<close> gives if \<^verbatim>\<open>nodeMode\<close> is the string \<^verbatim>\<open>runOnceForAllItems\<close>, and what
  \<^verbatim>\<open>runForEachItem\<close> gives for every other \<^verbatim>\<open>nodeMode\<close>.
\<close>

theorem executeTask_dispatch:
  assumes "requestData h (taskId task) ''all'' = Inr allData"
    and "settings task = Some st"
  shows "(nodeMode st = ''runOnceForAllItems'' \<longrightarrow>
            executeTask h this task =
              map_sum Thrown
                (\<lambda>r. \<lparr> result = r,
                        customData = metadata (resultData (runExecutionData allData)) \<rparr>)
                (runForAllItems h this (taskId task) st allData
                   \<lparr> workflowParams = workflow allData, workflow_nodeTypes = nodeTypes this \<rparr>
                   (ConsoleFor (taskId task)))) \<and>
         (nodeMode st \<noteq> ''runOnceForAllItems'' \<longrightarrow>
            executeTask h this task =
              map_sum Thrown
                (\<lambda>r. \<lparr> result = r,
                        customData = metadata (resultData (runExecutionData allData)) \<rparr>)
                (runForEachItem h this (taskId task) st allData
                   \<lparr> workflowParams = workflow allData, workflow_nodeTypes = nodeTypes this \<rparr>
                   (ConsoleFor (taskId task))))"
  using assms by (auto simp: executeTask_def Let_def split: sum.splits)

theorem executeTask_dispatch_witness:
  "requestData (sampleHost boomAtOne) ''t1'' ''all'' = Inr sampleData \<and>
   nodeMode (sampleSettings ''someOtherMode'' True) \<noteq> ''runOnceForAllItems'' \<and>
   executeTask (sampleHost boomAtOne) sampleRunner
     \<lparr> taskId = ''t1'', settings = Some (sampleSettings ''someOtherMode'' True) \<rparr> =
     Inr \<lparr> result =
             [\<lparr> json = JObj [(''ok'', JBool True)], binary = None,
                 pairedItem = Some (PairedItem 0) \<rparr>,
              \<lparr> json = JObj [(''error'', JStr ''boom'')], binary = None,
                 pairedItem = Some (PairedItem 1) \<rparr>,
              \<lparr> json = JObj [(''ok'', JBool True)], binary = None,
                 pairedItem = Some (PairedItem 2) \<rparr>],
           customData = None \<rparr> \<and>
   executeTask (sampleHost boomAtOne) sampleRunner
     \<lparr> taskId = ''t1'', settings = Some (sampleSettings ''runOnceForAllItems'' True) \<rparr> =
     Inr \<lparr> result =
             [\<lparr> json = JObj [(''error'', JStr ''Code does not return items properly'')],
                 binary = None, pairedItem = None \<rparr>],
           customData = None \<rparr>"
proof -
  let ?task = "\<lambda>m. \<lparr> taskId = ''t1'', settings = Some (sampleSettings m True) \<rparr>"
  have req: "requestData (sampleHost boomAtOne) (taskId (?task m)) ''all'' = Inr sampleData" for m
    by (simp add: sampleHost_def)
  have st: "settings (?task m) = Some (sampleSettings m True)" for m by simp
  have ne: "nodeMode (sampleSettings ''someOtherMode'' True) \<noteq> ''runOnceForAllItems''"
    by (simp add: sampleSettings_def)
  have eq: "nodeMode (sampleSettings ''runOnceForAllItems'' True) = ''runOnceForAllItems''"
    by (simp add: sampleSettings_def)
  have each: "runForEachItem (sampleHost boomAtOne) sampleRunner ''t1''
      (sampleSettings ''someOtherMode'' True) sampleData
      \<lparr> workflowParams = workflow sampleData, workflow_nodeTypes = nodeTypes sampleRunner \<rparr>
      (ConsoleFor ''t1'') =
      Inr [\<lparr> json = JObj [(''ok'', JBool True)], binary = None,
                 pairedItem = Some (PairedItem 0) \<rparr>,
              \<lparr> json = JObj [(''error'', JStr ''boom'')], binary = None,
                 pairedItem = Some (PairedItem 1) \<rparr>,
              \<lparr> json = JObj [(''ok'', JBool True)], binary = None,
                 pairedItem = Some (PairedItem 2) \<rparr>]"
    by (simp add: run_defs sample_defs runForEachItem_loop.simps makeSerializable_def)
  have all: "runForAllItems (sampleHost boomAtOne) sampleRunner ''t1''
      (sampleSettings ''runOnceForAllItems'' True) sampleData
      \<lparr> workflowParams = workflow sampleData, workflow_nodeTypes = nodeTypes sampleRunner \<rparr>
      (ConsoleFor ''t1'') =
      Inr [\<lparr> json = JObj [(''error'', JStr ''Code does not return items properly'')],
                 binary = None, pairedItem = None \<rparr>]"
    by (simp add: run_defs sample_defs makeSerializable_def)
  have "executeTask (sampleHost boomAtOne) sampleRunner (?task ''someOtherMode'') =
     Inr \<lparr> result =
             [\<lparr> json = JObj [(''ok'', JBool True)], binary = None,
                 pairedItem = Some (PairedItem 0) \<rparr>,
              \<lparr> json = JObj [(''error'', JStr ''boom'')], binary = None,
                 pairedItem = Some (PairedItem 1) \<rparr>,
              \<lparr> json = JObj [(''ok'', JBool True)], binary = None,
                 pairedItem = Some (PairedItem 2) \<rparr>],
           customData = None \<rparr>"
    using executeTask_dispatch [OF req st, of "''someOtherMode''" sampleRunner] ne each
    by (simp add: sampleData_def)
  moreover have "executeTask (sampleHost boomAtOne) sampleRunner (?task ''runOnceForAllItems'') =
     Inr \<lparr> result =
             [\<lparr> json = JObj [(''error'', JStr ''Code does not return items properly'')],
                 binary = None, pairedItem = None \<rparr>],
           customData = None \<rparr>"
    using executeTask_dispatch [OF req st, of "''runOnceForAllItems''" sampleRunner] eq all
    by (simp add: sampleData_def)
  ultimately show ?thesis using req [of "''someOtherMode''"] ne by simp
qed

text \<open>A run that throws makes the task fail with that error: no result is returned.\<close>

lemma executeTask_throws:
  assumes "requestData h (taskId task) ''all'' = Inr allData"
    and "settings task = Some st"
    and "nodeMode st \<noteq> ''runOnceForAllItems''"
    and "runForEachItem h this (taskId task) st allData
           \<lparr> workflowParams = workflow allData, workflow_nodeTypes = nodeTypes this \<rparr>
           (ConsoleFor (taskId task)) = Inl err"
  shows "executeTask h this task = Inl (Thrown err)"
  using assms by (simp add: executeTask_def Let_def)

end
